theory Spec2Isabelle
  imports Complex_Main "HOL-Library.Sublist" "HOL-Library.Multiset" "HOL-Library.AList"
    "HOL-Library.Log_Nat"
begin

section \<open>The ticket assignment engine of ticket_assignment_system.py\<close>

text \<open>
  The embedding follows \<^verbatim>\<open>src/ticket_assignment_system.py\<close> (class
  \<^verbatim>\<open>AdvancedTicketAssignmentSystem\<close>) and \<^verbatim>\<open>validate_data\<close> of
  \<^verbatim>\<open>src/utils.py\<close>.

  Conventions.
  \<^item> A JSON object is a record whose fields are options: \<open>None\<close> is an absent key, and
    reading an absent key is the error \<open>KeyError\<close>.
  \<^item> A value of Python's \<^verbatim>\<open>float\<close> is a \<open>real\<close>; there is no NaN and no infinity. The
    priority and the weighted sum are the exact values of the source's expressions; the
    two penalty products are rounded to the nearest double, as the machine rounds them
    (\<open>round_double\<close> below).
  \<^item> Python's \<^verbatim>\<open>dict\<close> keeps insertion order; where the code iterates over one it is an
    association list with distinct keys, updated in place.
  \<^item> A string is a list of bytes; \<^verbatim>\<open>str.lower\<close> is modelled on the ASCII letters.
  \<^item> An exception is a value \<open>Inl e\<close> of the result; it ends the computation it occurs in.
\<close>

subsection \<open>Errors\<close>

datatype error = KeyError string | ZeroDivisionError | IndexError

definition ebind :: "error + 'a \<Rightarrow> ('a \<Rightarrow> error + 'b) \<Rightarrow> error + 'b" where
  "ebind m f = (case m of Inl e \<Rightarrow> Inl e | Inr x \<Rightarrow> f x)"

text \<open>\<^verbatim>\<open>d[key]\<close> on a JSON object.\<close>

definition getitem :: "string \<Rightarrow> 'a option \<Rightarrow> error + 'a" where
  "getitem key field = (case field of None \<Rightarrow> Inl (KeyError key) | Some v \<Rightarrow> Inr v)"

text \<open>\<^verbatim>\<open>a / b\<close> on numbers.\<close>

definition py_div :: "real \<Rightarrow> real \<Rightarrow> error + real" where
  "py_div a b = (if b = 0 then Inl ZeroDivisionError else Inr (a / b))"

subsection \<open>Strings\<close>

definition lower_char :: "char \<Rightarrow> char" where
  "lower_char c =
     (case map_of (zip ''ABCDEFGHIJKLMNOPQRSTUVWXYZ'' ''abcdefghijklmnopqrstuvwxyz'') c of
        Some d \<Rightarrow> d
      | None \<Rightarrow> c)"

definition lower :: "string \<Rightarrow> string" where
  "lower s = map lower_char s"

text \<open>\<^verbatim>\<open>keyword in text\<close>: the keyword occurs as a contiguous substring.\<close>

fun str_in :: "string \<Rightarrow> string \<Rightarrow> bool" where
  "str_in k [] = (k = [])"
| "str_in k (c # cs) = (prefix k (c # cs) \<or> str_in k cs)"

text \<open>\<^verbatim>\<open>sum(1 for keyword in keywords if keyword in text)\<close>\<close>

definition count_in :: "string list \<Rightarrow> string \<Rightarrow> nat" where
  "count_in keywords text = length (filter (\<lambda>keyword. str_in keyword text) keywords)"

subsection \<open>Data\<close>

record ticket =
  ticket_id :: "string option"
  title :: "string option"
  description :: "string option"
  creation_timestamp :: "real option"

text \<open>
  An agent as the dataset gives it, with the two fields \<^verbatim>\<open>load_data\<close> sets on every agent
  (\<^verbatim>\<open>assigned_tickets\<close>, \<^verbatim>\<open>current_priority_load\<close>), which are therefore never absent.
\<close>

record agent =
  agent_id :: "string option"
  name :: "string option"
  skills :: "(string \<rightharpoonup> int) option"
  experience_level :: "int option"
  availability_status :: "string option"
  current_load :: "int option"
  assigned_tickets :: "string list"
  current_priority_load :: real

record ticket_priority =
  tp_ticket_id :: string
  priority_score :: real
  urgency_level :: string
  business_impact :: real
  affected_users :: int
  security_risk :: real

text \<open>\<^verbatim>\<open>TicketPriority.__lt__\<close>\<close>

definition tp_lt :: "ticket_priority \<Rightarrow> ticket_priority \<Rightarrow> bool" where
  "tp_lt self other = (priority_score self > priority_score other)"

record config =
  max_load_per_agent :: int
  skill_match_weight :: real
  experience_weight :: real
  workload_weight :: real
  priority_weight :: real
  critical_keywords :: "string list"
  high_priority_keywords :: "string list"

text \<open>The defaults of \<^verbatim>\<open>_load_config\<close> (the presentation-only skill categories left out).\<close>

definition default_config :: config where
  "default_config = \<lparr>
     max_load_per_agent = 10,
     skill_match_weight = 0.4,
     experience_weight = 0.2,
     workload_weight = 0.2,
     priority_weight = 0.2,
     critical_keywords = [''critical'', ''urgent'', ''down'', ''outage'', ''security'',
       ''breach'', ''attack'', ''production'', ''business-critical''],
     high_priority_keywords = [''failing'', ''error'', ''unable'', ''blocked'', ''stopped'']\<rparr>"

record history =
  resolved :: int
  total :: int

subsection \<open>Skill extraction\<close>

definition skill_keywords :: "(string \<times> string list) list" where
  "skill_keywords = [
   (''Networking'', [''network'', ''vpn'', ''connection'', ''connectivity'', ''lan'', ''wan'']),
   (''VPN_Troubleshooting'', [''vpn'', ''tunnel'', ''remote'', ''connection dropping'']),
   (''Linux_Administration'', [''linux'', ''ubuntu'', ''debian'', ''centos'', ''bash'', ''shell'']),
   (''Cloud_AWS'', [''aws'', ''amazon'', ''ec2'', ''s3'', ''lambda'']),
   (''Cloud_Azure'', [''azure'', ''microsoft cloud'', ''app service'']),
   (''Hardware_Diagnostics'', [''hardware'', ''laptop'', ''desktop'', ''pc'', ''computer'', ''fan'', ''battery'']),
   (''Windows_Server_2022'', [''windows server'', ''server 2022'', ''windows 2022'']),
   (''Active_Directory'', [''active directory'', ''ad'', ''domain'', ''ldap'', ''group policy'']),
   (''Microsoft_365'', [''microsoft 365'', ''m365'', ''office 365'', ''outlook'', ''teams'', ''sharepoint'']),
   (''Network_Security'', [''firewall'', ''security'', ''breach'', ''attack'', ''vulnerability'']),
   (''Database_SQL'', [''database'', ''sql'', ''query'', ''mysql'', ''postgresql'', ''mssql'']),
   (''SharePoint_Online'', [''sharepoint'', ''document library'', ''site collection'']),
   (''PowerShell_Scripting'', [''powershell'', ''ps1'', ''script'']),
   (''Endpoint_Security'', [''endpoint'', ''antivirus'', ''malware'', ''edr'']),
   (''DevOps_CI_CD'', [''devops'', ''ci/cd'', ''jenkins'', ''pipeline'', ''deployment'']),
   (''Kubernetes_Docker'', [''kubernetes'', ''k8s'', ''docker'', ''container'', ''pod'']),
   (''Voice_VoIP'', [''voip'', ''phone'', ''voice'', ''telephony'', ''sip'']),
   (''Printer_Troubleshooting'', [''printer'', ''print'', ''printing'']),
   (''Mac_OS'', [''mac'', ''macos'', ''osx'', ''apple'', ''macbook'']),
   (''SaaS_Integrations'', [''saas'', ''integration'', ''api'', ''webhook'', ''sso'', ''saml'']),
   (''Phishing_Analysis'', [''phishing'', ''spam'', ''suspicious email'', ''scam'']),
   (''SSL_Certificates'', [''ssl'', ''tls'', ''certificate'', ''https'', ''encryption'']),
   (''DNS_Configuration'', [''dns'', ''domain'', ''nameserver'', ''resolution'']),
   (''Endpoint_Management'', [''endpoint'', ''mdm'', ''intune'', ''device management'']),
   (''Web_Server_Apache_Nginx'', [''apache'', ''nginx'', ''web server'', ''http'']),
   (''Firewall_Configuration'', [''firewall'', ''iptables'', ''pf'', ''acl'', ''rules'']),
   (''Identity_Management'', [''identity'', ''iam'', ''okta'', ''auth0'', ''authentication'']),
   (''Laptop_Repair'', [''laptop'', ''notebook'', ''screen'', ''keyboard'', ''touchpad'']),
   (''Network_Cabling'', [''cable'', ''ethernet'', ''cat5'', ''cat6'', ''rj45'']),
   (''Switch_Configuration'', [''switch'', ''vlan'', ''trunk'', ''spanning tree'']),
   (''Routing_Protocols'', [''routing'', ''ospf'', ''bgp'', ''eigrp'', ''route'']),
   (''Cisco_IOS'', [''cisco'', ''ios'', ''ccna'', ''router'', ''switch'']),
   (''Antivirus_Malware'', [''antivirus'', ''malware'', ''virus'', ''trojan'', ''ransomware'']),
   (''Security_Audits'', [''audit'', ''compliance'', ''assessment'', ''vulnerability scan'']),
   (''SIEM_Logging'', [''siem'', ''log'', ''splunk'', ''elastic'', ''monitoring'']),
   (''ETL_Processes'', [''etl'', ''extract'', ''transform'', ''load'', ''data pipeline'']),
   (''Data_Warehousing'', [''warehouse'', ''data lake'', ''bigquery'', ''redshift'']),
   (''PowerBI_Tableau'', [''powerbi'', ''tableau'', ''dashboard'', ''visualization'']),
   (''API_Troubleshooting'', [''api'', ''rest'', ''graphql'', ''endpoint'', ''integration'']),
   (''Software_Licensing'', [''license'', ''activation'', ''subscription'', ''seat'']),
   (''Virtualization_VMware'', [''vmware'', ''virtual'', ''vm'', ''esxi'', ''vcenter'']),
   (''Python_Scripting'', [''python'', ''py'', ''script'', ''automation''])]"

type_synonym required_skills = "(string \<times> real) list"

type_synonym skill_cache = "string \<Rightarrow> required_skills option"

text \<open>
  The loop over the lexicon (lines 165-168): one entry per skill with a positive count, in
  the order of the lexicon. The lexicon is the first argument; the program's is
  \<open>skill_keywords\<close>.
\<close>

fun scan_skills :: "(string \<times> string list) list \<Rightarrow> string \<Rightarrow> required_skills" where
  "scan_skills [] combined_text = []"
| "scan_skills ((skill, keywords) # rest) combined_text =
     (let score = count_in keywords combined_text
      in if score > 0
         then (skill, min (real score / real (length keywords)) 1) # scan_skills rest combined_text
         else scan_skills rest combined_text)"

text \<open>
  \<^verbatim>\<open>extract_required_skills\<close>: the mapping returned and the cache after the call.
\<close>

definition extract_required_skills ::
  "skill_cache \<Rightarrow> ticket \<Rightarrow> error + (required_skills \<times> skill_cache)" where
  "extract_required_skills cache t =
     ebind (getitem ''ticket_id'' (ticket_id t)) (\<lambda>tid.
       case cache tid of
         Some cached \<Rightarrow> Inr (cached, cache)
       | None \<Rightarrow>
           ebind (getitem ''description'' (description t)) (\<lambda>d.
           ebind (getitem ''title'' (title t)) (\<lambda>ti.
             let combined_text = lower ti @ '' '' @ lower d;
                 required = scan_skills skill_keywords combined_text
             in Inr (required, cache(tid \<mapsto> required)))))"

subsection \<open>Ticket priority\<close>

definition security_keywords :: "string list" where
  "security_keywords = [''breach'', ''attack'', ''phishing'', ''malware'', ''virus'',
     ''unauthorized'', ''suspicious'', ''security'']"

definition business_impact_of :: "string \<Rightarrow> real" where
  "business_impact_of combined_text =
     (if str_in ''production'' combined_text \<or> str_in ''business-critical'' combined_text then 1.0
      else if str_in ''public'' combined_text \<or> str_in ''customer'' combined_text then 0.8
      else if str_in ''internal'' combined_text \<or> str_in ''employee'' combined_text then 0.5
      else 0.3)"

definition affected_users_of :: "string \<Rightarrow> int" where
  "affected_users_of combined_text =
     (if str_in ''all'' combined_text \<or> str_in ''everyone'' combined_text
         \<or> str_in ''company'' combined_text then 100
      else if str_in ''department'' combined_text \<or> str_in ''team'' combined_text
         \<or> str_in ''multiple'' combined_text then 20
      else if str_in ''group'' combined_text then 10
      else 1)"

definition urgency_of :: "real \<Rightarrow> string" where
  "urgency_of score =
     (if score \<ge> 20 then ''CRITICAL''
      else if score \<ge> 15 then ''HIGH''
      else if score \<ge> 10 then ''MEDIUM''
      else ''LOW'')"

text \<open>
  \<^verbatim>\<open>calculate_ticket_priority\<close>; \<open>now\<close> is the value of
  \<^verbatim>\<open>datetime.now().timestamp()\<close> at the call.
\<close>

definition calculate_ticket_priority :: "config \<Rightarrow> real \<Rightarrow> ticket \<Rightarrow> error + ticket_priority" where
  "calculate_ticket_priority cfg now t =
     ebind (getitem ''description'' (description t)) (\<lambda>d.
     ebind (getitem ''title'' (title t)) (\<lambda>ti.
       let combined_text = lower ti @ '' '' @ lower d;
           critical_count = count_in (critical_keywords cfg) combined_text;
           high_priority_count = count_in (high_priority_keywords cfg) combined_text;
           bi = business_impact_of combined_text;
           au = affected_users_of combined_text;
           security_count = count_in security_keywords combined_text;
           sr = min (real security_count / real (length security_keywords)) 1.0
       in ebind (getitem ''creation_timestamp'' (creation_timestamp t)) (\<lambda>created.
            let age_hours = (now - created) / 3600;
                time_urgency = min (age_hours / 24) 1.0;
                score = real critical_count * 10 + real high_priority_count * 5 + bi * 8
                        + (real_of_int au / 10) + sr * 9 + time_urgency * 3
            in ebind (getitem ''ticket_id'' (ticket_id t)) (\<lambda>tid.
                 Inr \<lparr>tp_ticket_id = tid, priority_score = score,
                      urgency_level = urgency_of score, business_impact = bi,
                      affected_users = au, security_risk = sr\<rparr>))))"

subsection \<open>Double precision\<close>

text \<open>
  A Python \<^verbatim>\<open>float\<close> is an IEEE 754 binary64 number: a multiple \<open>m * 2 ^ e\<close> of a power
  of two with \<open>\<bar>m\<bar> < 2 ^ 53\<close> and \<open>e \<ge> - 1074\<close>. A product is the exact product
  rounded to the nearest such number, a tie going to the even \<open>m\<close>. Nothing here
  overflows: the products below shrink their argument.
\<close>

definition round_half_even :: "real \<Rightarrow> int" where
  "round_half_even y =
     (let f = \<lfloor>y\<rfloor>;
          d = y - of_int f
      in if d < 1 / 2 then f
         else if d > 1 / 2 then f + 1
         else if even f then f else f + 1)"

text \<open>The exponent of \<open>x > 0\<close>: the \<open>k\<close> with \<open>2 ^ k \<le> x < 2 ^ (k + 1)\<close>.\<close>

definition ilog2 :: "real \<Rightarrow> int" where
  "ilog2 x = (if 1 \<le> x then bitlen \<lfloor>x\<rfloor> - 1 else - bitlen (\<lceil>1 / x\<rceil> - 1))"

definition round_double :: "real \<Rightarrow> real" where
  "round_double x =
     (if x = 0 then 0
      else let e = max (ilog2 \<bar>x\<bar> - 52) (- 1074)
           in real_of_int (round_half_even (x / 2 powi e)) * 2 powi e)"

text \<open>\<^verbatim>\<open>a * b\<close> on floats.\<close>

definition fmul :: "real \<Rightarrow> real \<Rightarrow> real" where
  "fmul a b = round_double (a * b)"

text \<open>The literals \<^verbatim>\<open>0.1\<close>, \<^verbatim>\<open>0.01\<close> and \<^verbatim>\<open>0.001\<close>: the doubles nearest to them.\<close>

definition double_0_1 :: real where
  "double_0_1 = round_double (1 / 10)"

definition double_0_01 :: real where
  "double_0_01 = round_double (1 / 100)"

definition double_0_001 :: real where
  "double_0_001 = round_double (1 / 1000)"

subsection \<open>Agent score\<close>

text \<open>
  Lines 251-261: the loop over the required skills reads \<^verbatim>\<open>agent['skills']\<close> once per
  required skill, so an agent without skills fails only when a skill is required; the
  division is inside \<^verbatim>\<open>if required_skills:\<close>.
\<close>

definition skill_match_score_of :: "agent \<Rightarrow> required_skills \<Rightarrow> error + real" where
  "skill_match_score_of a required =
     ebind (if required = [] then Inr 0
            else ebind (getitem ''skills'' (skills a)) (\<lambda>sk.
                   Inr (fold (\<lambda>(skill, importance) acc.
                               case sk skill of
                                 Some level \<Rightarrow> acc + real_of_int level * importance
                               | None \<Rightarrow> acc) required 0)))
       (\<lambda>skill_match_score.
          if required \<noteq> [] then py_div skill_match_score (real (length required))
          else Inr 5)"

definition priority_capability_of :: "string \<Rightarrow> int \<Rightarrow> real" where
  "priority_capability_of urgency experience =
     (if urgency = ''CRITICAL'' \<and> experience \<ge> 8 then 10
      else if urgency = ''HIGH'' \<and> experience \<ge> 6 then 8
      else if urgency = ''MEDIUM'' \<and> experience \<ge> 4 then 6
      else 5)"

definition performance_score_of :: "(string \<rightharpoonup> history) \<Rightarrow> string \<Rightarrow> error + real" where
  "performance_score_of hist aid =
     (case hist aid of
        None \<Rightarrow> Inr 5
      | Some h \<Rightarrow>
          if total h > 0
          then ebind (py_div (real_of_int (resolved h)) (real_of_int (total h)))
                 (\<lambda>resolution_rate. Inr (resolution_rate * 10))
          else Inr 5)"

text \<open>
  Lines 251-291 of \<^verbatim>\<open>calculate_agent_score\<close>: the weighted sum before the penalties,
  for the required skills that \<^verbatim>\<open>extract_required_skills\<close> returned.
\<close>

definition weighted_sum ::
  "config \<Rightarrow> (string \<rightharpoonup> history) \<Rightarrow> required_skills \<Rightarrow> agent \<Rightarrow> ticket_priority
     \<Rightarrow> error + real" where
  "weighted_sum cfg hist required a tp =
     ebind (skill_match_score_of a required) (\<lambda>skill_match_score.
     ebind (getitem ''experience_level'' (experience_level a)) (\<lambda>experience.
       let experience_score = min (real_of_int experience / 10) 1.0 * 10;
           max_load = max_load_per_agent cfg
       in ebind (getitem ''current_load'' (current_load a)) (\<lambda>load.
          ebind (py_div (real_of_int load) (real_of_int max_load)) (\<lambda>ratio.
            let workload_score = (1 - ratio) * 10;
                priority_capability = priority_capability_of (urgency_level tp) experience
            in ebind (getitem ''agent_id'' (agent_id a)) (\<lambda>aid.
               ebind (performance_score_of hist aid) (\<lambda>performance_score.
                 Inr (skill_match_score * skill_match_weight cfg
                      + experience_score * experience_weight cfg
                      + workload_score * workload_weight cfg
                      + priority_capability * priority_weight cfg
                      + performance_score * 0.1)))))))"

text \<open>
  Lines 293-299: the two penalties, in this order; \<^verbatim>\<open>final_score *= 0.1\<close> and
  \<^verbatim>\<open>final_score *= 0.01\<close> are products of doubles, each rounded.
\<close>

definition apply_penalties :: "config \<Rightarrow> agent \<Rightarrow> real \<Rightarrow> error + real" where
  "apply_penalties cfg a final_score =
     ebind (getitem ''availability_status'' (availability_status a)) (\<lambda>status.
       let final_score1 = (if status \<noteq> ''Available'' then fmul final_score double_0_1
                           else final_score)
       in ebind (getitem ''current_load'' (current_load a)) (\<lambda>load.
            Inr (if load \<ge> max_load_per_agent cfg then fmul final_score1 double_0_01
                 else final_score1)))"

text \<open>
  \<^verbatim>\<open>calculate_agent_score\<close>: the score, and the cache after the call to
  \<^verbatim>\<open>extract_required_skills\<close> in line 249.
\<close>

definition calculate_agent_score ::
  "config \<Rightarrow> (string \<rightharpoonup> history) \<Rightarrow> skill_cache \<Rightarrow> agent \<Rightarrow> ticket \<Rightarrow> ticket_priority
     \<Rightarrow> error + (real \<times> skill_cache)" where
  "calculate_agent_score cfg hist cache a t tp =
     ebind (extract_required_skills cache t) (\<lambda>(required, cache').
     ebind (weighted_sum cfg hist required a tp) (\<lambda>final_score.
     ebind (apply_penalties cfg a final_score) (\<lambda>score.
       Inr (score, cache'))))"

subsection \<open>The priority queue: heapq\<close>

text \<open>
  \<^verbatim>\<open>heapq\<close> is Python's standard library module; these are \<^verbatim>\<open>heappush\<close>,
  \<^verbatim>\<open>heappop\<close>, \<^verbatim>\<open>_siftdown\<close> and \<^verbatim>\<open>_siftup\<close> of CPython's
  \<^verbatim>\<open>Lib/heapq.py\<close> on a list of \<open>ticket_priority\<close>, compared by \<open>tp_lt\<close>.
\<close>

function siftdown_loop ::
  "ticket_priority list \<Rightarrow> ticket_priority \<Rightarrow> nat \<Rightarrow> nat \<Rightarrow> ticket_priority list" where
  "siftdown_loop heap newitem startpos pos =
     (if pos > startpos
      then let parentpos = (pos - 1) div 2;
               parent = heap ! parentpos
           in if tp_lt newitem parent
              then siftdown_loop (heap[pos := parent]) newitem startpos parentpos
              else heap[pos := newitem]
      else heap[pos := newitem])"
  by pat_completeness auto
termination
  by (relation "measure (\<lambda>(heap, newitem, startpos, pos). pos)") auto

declare siftdown_loop.simps [simp del]

definition siftdown :: "ticket_priority list \<Rightarrow> nat \<Rightarrow> nat \<Rightarrow> ticket_priority list" where
  "siftdown heap startpos pos = siftdown_loop heap (heap ! pos) startpos pos"

text \<open>The first loop of \<^verbatim>\<open>_siftup\<close>: the smaller child moves up until a leaf is reached.\<close>

function siftup_loop :: "ticket_priority list \<Rightarrow> nat \<Rightarrow> ticket_priority list \<times> nat" where
  "siftup_loop heap pos =
     (let endpos = length heap;
          childpos = 2 * pos + 1
      in if childpos < endpos
         then let rightpos = childpos + 1;
                  childpos' = (if rightpos < endpos
                                  \<and> \<not> tp_lt (heap ! childpos) (heap ! rightpos)
                               then rightpos else childpos)
              in siftup_loop (heap[pos := heap ! childpos']) childpos'
         else (heap, pos))"
  by pat_completeness auto
termination
  by (relation "measure (\<lambda>(heap, pos). length heap - pos)") auto

declare siftup_loop.simps [simp del]

definition siftup :: "ticket_priority list \<Rightarrow> nat \<Rightarrow> ticket_priority list" where
  "siftup heap pos =
     (let newitem = heap ! pos
      in case siftup_loop heap pos of
           (heap', pos') \<Rightarrow> siftdown (heap'[pos' := newitem]) pos pos')"

definition heappush :: "ticket_priority list \<Rightarrow> ticket_priority \<Rightarrow> ticket_priority list" where
  "heappush heap item = siftdown (heap @ [item]) 0 (length (heap @ [item]) - 1)"

definition heappop ::
  "ticket_priority list \<Rightarrow> error + (ticket_priority \<times> ticket_priority list)" where
  "heappop heap =
     (if heap = [] then Inl IndexError
      else let lastelt = last heap;
               heap' = butlast heap
           in if heap' \<noteq> []
              then let returnitem = heap' ! 0
                   in Inr (returnitem, siftup (heap'[0 := lastelt]) 0)
              else Inr (lastelt, heap'))"

subsection \<open>Formatting and rounding\<close>

text \<open>
  \<^verbatim>\<open>str\<close> of an integer, \<^verbatim>\<open>round(x, 2)\<close>, the format \<^verbatim>\<open>{x:.2f}\<close> and
  \<^verbatim>\<open>sep.join\<close>. Python rounds a tie to the even neighbour (\<open>round_half_even\<close>).
\<close>

fun str_nat :: "nat \<Rightarrow> string" where
  "str_nat n =
     (if n < 10 then [char_of (48 + n)]
      else str_nat (n div 10) @ [char_of (48 + n mod 10)])"

definition str_int :: "int \<Rightarrow> string" where
  "str_int i = (if i < 0 then ''-'' @ str_nat (nat (- i)) else str_nat (nat i))"

definition py_round2 :: "real \<Rightarrow> real" where
  "py_round2 x = of_int (round_half_even (x * 100)) / 100"

definition format_2f :: "real \<Rightarrow> string" where
  "format_2f x =
     (let r = nat (round_half_even (\<bar>x\<bar> * 100))
      in (if x < 0 then ''-'' else []) @ str_nat (r div 100) @ ''.''
         @ [char_of (48 + r mod 100 div 10), char_of (48 + r mod 10)])"

fun join :: "string \<Rightarrow> string list \<Rightarrow> string" where
  "join sep [] = []"
| "join sep [x] = x"
| "join sep (x # y # ys) = x @ sep @ join sep (y # ys)"

subsection \<open>The system and its data\<close>

text \<open>
  An entry of the assignment log. The keys the unassigned entry does not have are
  \<open>None\<close>; the \<^verbatim>\<open>timestamp\<close> key is left out.
\<close>

record assignment =
  a_ticket_id :: string
  a_title :: string
  assigned_agent_id :: "string option"
  assigned_agent_name :: string
  priority :: string
  a_priority_score :: real
  a_business_impact :: "real option"
  a_affected_users :: "int option"
  a_security_risk :: "real option"
  agent_match_score :: "real option"
  rationale :: string
  a_required_skills :: "string list option"
  agent_skills_matched :: "string list option"

record system =
  agents :: "(string \<times> agent) list"
  tickets :: "(string \<times> ticket) list"
  assignments :: "assignment list"
  sys_config :: config
  skill_requirements_cache :: skill_cache
  agent_performance_history :: "string \<rightharpoonup> history"

text \<open>\<^verbatim>\<open>__init__\<close>, the configuration given.\<close>

definition init_system :: "config \<Rightarrow> system" where
  "init_system cfg = \<lparr>agents = [], tickets = [], assignments = [], sys_config = cfg,
     skill_requirements_cache = Map.empty, agent_performance_history = Map.empty\<rparr>"

text \<open>The parsed JSON file.\<close>

record dataset =
  d_agents :: "agent list option"
  d_tickets :: "ticket list option"

text \<open>
  \<^verbatim>\<open>{x[key]: x for x in xs}\<close>: a later record with the same key takes the place of the
  earlier one.
\<close>

fun index_by ::
  "('a \<Rightarrow> string option) \<Rightarrow> string \<Rightarrow> 'a list \<Rightarrow> (string \<times> 'a) list \<Rightarrow> error + (string \<times> 'a) list" where
  "index_by key keyname [] acc = Inr acc"
| "index_by key keyname (x # xs) acc =
     ebind (getitem keyname (key x)) (\<lambda>k. index_by key keyname xs (AList.update k x acc))"

text \<open>\<^verbatim>\<open>load_data\<close>, from the parsed file on.\<close>

definition load_data :: "system \<Rightarrow> dataset \<Rightarrow> error + system" where
  "load_data s d =
     ebind (getitem ''agents'' (d_agents d)) (\<lambda>as.
     ebind (index_by agent_id ''agent_id'' as []) (\<lambda>agents'.
     ebind (getitem ''tickets'' (d_tickets d)) (\<lambda>ts.
     ebind (index_by ticket_id ''ticket_id'' ts []) (\<lambda>tickets'.
       Inr (s\<lparr>agents := map (\<lambda>(k, a). (k, a\<lparr>assigned_tickets := [],
                                               current_priority_load := 0\<rparr>)) agents',
              tickets := tickets'\<rparr>)))))"

subsection \<open>The assignment loop\<close>

text \<open>Lines 305-308: one priority per ticket, pushed on the heap; \<open>clock k\<close> is the time at
  which the priority of the ticket stored under \<open>k\<close> is computed.\<close>

fun enqueue ::
  "config \<Rightarrow> (string \<Rightarrow> real) \<Rightarrow> (string \<times> ticket) list \<Rightarrow> ticket_priority list
     \<Rightarrow> error + ticket_priority list" where
  "enqueue cfg clock [] ticket_priorities = Inr ticket_priorities"
| "enqueue cfg clock ((k, t) # rest) ticket_priorities =
     ebind (calculate_ticket_priority cfg (clock k) t) (\<lambda>p.
       enqueue cfg clock rest (heappush ticket_priorities p))"

text \<open>Lines 318-324: the scan over all agents, with the cache, the best agent and the best
  score so far.\<close>

fun scan_agents ::
  "config \<Rightarrow> (string \<rightharpoonup> history) \<Rightarrow> ticket \<Rightarrow> ticket_priority \<Rightarrow> (string \<times> agent) list
     \<Rightarrow> skill_cache \<times> string option \<times> real \<Rightarrow> error + (skill_cache \<times> string option \<times> real)" where
  "scan_agents cfg hist t tp [] st = Inr st"
| "scan_agents cfg hist t tp ((aid, a) # rest) (cache, best_agent_id, best_score) =
     ebind (calculate_agent_score cfg hist cache a t tp) (\<lambda>(score, cache').
       if score > best_score
       then scan_agents cfg hist t tp rest (cache', Some aid, score)
       else scan_agents cfg hist t tp rest (cache', best_agent_id, best_score))"

text \<open>Lines 384-395: the entry for a ticket that no agent took.\<close>

definition unassigned_entry :: "ticket \<Rightarrow> ticket_priority \<Rightarrow> error + assignment" where
  "unassigned_entry t tp =
     ebind (getitem ''ticket_id'' (ticket_id t)) (\<lambda>tid.
     ebind (getitem ''title'' (title t)) (\<lambda>ti.
       Inr \<lparr>a_ticket_id = tid, a_title = ti, assigned_agent_id = None,
            assigned_agent_name = ''UNASSIGNED'', priority = urgency_level tp,
            a_priority_score = py_round2 (priority_score tp),
            a_business_impact = None, a_affected_users = None, a_security_risk = None,
            agent_match_score = None,
            rationale = ''No suitable agent available - requires escalation or additional resources'',
            a_required_skills = None, agent_skills_matched = None\<rparr>))"

text \<open>
  Lines 327-382: the entry for the best agent and the update of that agent. In the
  rationale, \<^verbatim>\<open>agent_id\<close> is the variable of the scan, which holds the key of the last
  agent.
\<close>

definition commit_assignment ::
  "system \<Rightarrow> skill_cache \<Rightarrow> ticket \<Rightarrow> ticket_priority \<Rightarrow> string \<Rightarrow> real \<Rightarrow> error + system" where
  "commit_assignment s cache t tp best_agent_id best_score =
     ebind (getitem best_agent_id (map_of (agents s) best_agent_id)) (\<lambda>a.
     ebind (extract_required_skills cache t) (\<lambda>(required, cache').
     ebind (if required = [] then Inr []
            else ebind (getitem ''skills'' (skills a)) (\<lambda>sk.
                   Inr (filter (\<lambda>skill. sk skill \<noteq> None) (map fst required)))) (\<lambda>matched_skills.
     ebind (if matched_skills = [] then Inr []
            else ebind (getitem ''skills'' (skills a)) (\<lambda>sk.
                   Inr [''Strong skills in '' @ join '', ''
                          (map (\<lambda>skill. skill @ '' ('' @
                                  str_int (case sk skill of Some level \<Rightarrow> level | None \<Rightarrow> 0)
                                  @ '')'') (take 3 matched_skills))])) (\<lambda>skill_part.
     ebind (getitem ''experience_level'' (experience_level a)) (\<lambda>experience.
     ebind (getitem ''current_load'' (current_load a)) (\<lambda>load.
       let experience_part =
             (if experience \<ge> 10 then ''senior expert level''
              else if experience \<ge> 7 then ''experienced professional''
              else if experience \<ge> 4 then ''competent handler''
              else ''developing expertise'');
           load_part =
             (if load \<le> 2 then [''optimal workload capacity'']
              else if load \<le> 4 then [''balanced workload'']
              else []);
           priority_part =
             (if urgency_level tp \<in> set [''CRITICAL'', ''HIGH'']
              then [''capable of handling '' @ urgency_level tp @ '' priority'']
              else []);
           rationale_parts = skill_part @ [experience_part] @ load_part @ priority_part
       in ebind (getitem ''name'' (name a)) (\<lambda>nm.
            let agent_id = fst (last (agents s));
                text = ''Assigned to '' @ nm @ '' ('' @ agent_id @ '') - ''
                       @ join '', '' rationale_parts @ ''. Match score: '' @ format_2f best_score
                       @ '', Priority: '' @ urgency_level tp
            in ebind (getitem ''ticket_id'' (ticket_id t)) (\<lambda>tid.
               ebind (getitem ''title'' (title t)) (\<lambda>ti.
                 let entry = \<lparr>a_ticket_id = tid, a_title = ti,
                       assigned_agent_id = Some best_agent_id,
                       assigned_agent_name = nm, priority = urgency_level tp,
                       a_priority_score = py_round2 (priority_score tp),
                       a_business_impact = Some (py_round2 (business_impact tp)),
                       a_affected_users = Some (affected_users tp),
                       a_security_risk = Some (py_round2 (security_risk tp)),
                       agent_match_score = Some (py_round2 best_score),
                       rationale = text,
                       a_required_skills = Some (take 5 (map fst required)),
                       agent_skills_matched = Some (take 5 matched_skills)\<rparr>;
                     a' = a\<lparr>current_load := Some (load + 1),
                            assigned_tickets := assigned_tickets a @ [tid],
                            current_priority_load := current_priority_load a + priority_score tp\<rparr>
                 in Inr (s\<lparr>agents := AList.update best_agent_id a' (agents s),
                           assignments := assignments s @ [entry],
                           skill_requirements_cache := cache'\<rparr>))))))))))"

text \<open>
  Lines 311-395: the body of the drain loop for the priority popped.
  \<^verbatim>\<open>if best_agent_id:\<close> is false for \<^verbatim>\<open>None\<close> and for the empty string.
\<close>

definition assign_one :: "system \<Rightarrow> ticket_priority \<Rightarrow> error + system" where
  "assign_one s tp =
     ebind (getitem (tp_ticket_id tp) (map_of (tickets s) (tp_ticket_id tp))) (\<lambda>t.
     ebind (scan_agents (sys_config s) (agent_performance_history s) t tp (agents s)
              (skill_requirements_cache s, None, - 1)) (\<lambda>(cache, best_agent_id, best_score).
       case best_agent_id of
         Some best \<Rightarrow>
           if best \<noteq> [] then commit_assignment s cache t tp best best_score
           else ebind (unassigned_entry t tp) (\<lambda>entry.
                  Inr (s\<lparr>assignments := assignments s @ [entry],
                         skill_requirements_cache := cache\<rparr>))
       | None \<Rightarrow>
           ebind (unassigned_entry t tp) (\<lambda>entry.
             Inr (s\<lparr>assignments := assignments s @ [entry],
                    skill_requirements_cache := cache\<rparr>))))"

text \<open>Lines 310-395: the drain loop.\<close>

function assign_loop :: "system \<Rightarrow> ticket_priority list \<Rightarrow> error + system" where
  "assign_loop s ticket_priorities =
     (if ticket_priorities \<noteq> []
      then case heappop ticket_priorities of
             Inl e \<Rightarrow> Inl e
           | Inr (tp, rest) \<Rightarrow>
               (case assign_one s tp of
                  Inl e \<Rightarrow> Inl e
                | Inr s' \<Rightarrow> assign_loop s' rest)
      else Inr s)"
  by pat_completeness auto
termination
proof (relation "measure (\<lambda>(s, ticket_priorities). length ticket_priorities)")
  show "wf (measure (\<lambda>(s, ticket_priorities). length ticket_priorities))"
    by simp
next
  fix s :: system and ticket_priorities x2 :: "ticket_priority list"
    and x :: "ticket_priority \<times> ticket_priority list" and tp s'
  assume ne: "ticket_priorities \<noteq> []"
    and pop: "heappop ticket_priorities = Inr x" "(tp, x2) = x"
  have down: "length (siftdown_loop h n sp p) = length h" for h n sp p
    by (induction h n sp p rule: siftdown_loop.induct)
       (subst siftdown_loop.simps, simp add: Let_def)
  have up: "length (fst (siftup_loop h p)) = length h" for h p
    by (induction h p rule: siftup_loop.induct)
       (subst siftup_loop.simps, simp add: Let_def)
  have "length (siftup h p) = length h" for h p
    using up [of h p] by (cases "siftup_loop h p") (simp add: siftup_def siftdown_def down Let_def)
  with ne pop have "length x2 < length ticket_priorities"
    by (auto simp: heappop_def Let_def split: if_splits)
  then show "((s', x2), (s, ticket_priorities))
      \<in> measure (\<lambda>(s, ticket_priorities). length ticket_priorities)"
    by simp
qed

declare assign_loop.simps [simp del]

text \<open>\<^verbatim>\<open>assign_tickets\<close>\<close>

definition assign_tickets :: "(string \<Rightarrow> real) \<Rightarrow> system \<Rightarrow> error + system" where
  "assign_tickets clock s =
     ebind (enqueue (sys_config s) clock (tickets s) []) (\<lambda>ticket_priorities.
       assign_loop s ticket_priorities)"

subsection \<open>Analytics summary and the validator\<close>

text \<open>The \<^verbatim>\<open>summary\<close> block of \<^verbatim>\<open>generate_analytics\<close> (lines 400-405).\<close>

record summary =
  total_tickets :: nat
  total_agents :: nat
  summary_assigned_tickets :: nat
  unassigned_tickets :: nat

definition truthy :: "string option \<Rightarrow> bool" where
  "truthy v = (case v of None \<Rightarrow> False | Some x \<Rightarrow> x \<noteq> [])"

definition analytics_summary :: "system \<Rightarrow> summary" where
  "analytics_summary s = \<lparr>
     total_tickets = length (tickets s),
     total_agents = length (agents s),
     summary_assigned_tickets = length (filter (\<lambda>a. truthy (assigned_agent_id a)) (assignments s)),
     unassigned_tickets = length (filter (\<lambda>a. \<not> truthy (assigned_agent_id a)) (assignments s))\<rparr>"

text \<open>
  \<^verbatim>\<open>validate_data\<close> of \<^verbatim>\<open>utils.py\<close>, from the parsed file on: the error messages, in
  the order the function appends them, and the verdict.
\<close>

definition quoted :: "string \<Rightarrow> string" where
  "quoted s = CHR 0x27 # s @ [CHR 0x27]"

fun agent_errors :: "nat \<Rightarrow> agent list \<Rightarrow> string list" where
  "agent_errors i [] = []"
| "agent_errors i (a # as) =
     (if agent_id a = None then [''Agent '' @ str_nat i @ '' missing '' @ quoted ''agent_id''] else [])
     @ (if skills a = None then [''Agent '' @ str_nat i @ '' missing '' @ quoted ''skills''] else [])
     @ agent_errors (i + 1) as"

fun ticket_errors :: "nat \<Rightarrow> ticket list \<Rightarrow> string list" where
  "ticket_errors i [] = []"
| "ticket_errors i (t # ts) =
     (if ticket_id t = None then [''Ticket '' @ str_nat i @ '' missing '' @ quoted ''ticket_id''] else [])
     @ (if description t = None then [''Ticket '' @ str_nat i @ '' missing '' @ quoted ''description''] else [])
     @ ticket_errors (i + 1) ts"

definition validate_data :: "dataset \<Rightarrow> bool \<times> string list" where
  "validate_data d =
     (let errors =
            (if d_agents d = None then [''Missing '' @ quoted ''agents'' @ '' key in data''] else [])
            @ (if d_tickets d = None then [''Missing '' @ quoted ''tickets'' @ '' key in data''] else [])
            @ (case d_agents d of None \<Rightarrow> [] | Some as \<Rightarrow> agent_errors 0 as)
            @ (case d_tickets d of None \<Rightarrow> [] | Some ts \<Rightarrow> ticket_errors 0 ts)
      in (length errors = 0, errors))"

subsection \<open>Example data\<close>

definition ticket_outage :: ticket where
  "ticket_outage = \<lparr>ticket_id = Some ''T1'', title = Some ''Network down'',
     description = Some ''network down for everyone, production outage'',
     creation_timestamp = Some 0\<rparr>"

definition ticket_plain :: ticket where
  "ticket_plain = \<lparr>ticket_id = Some ''T3'', title = Some ''Hello'',
     description = Some ''hello'', creation_timestamp = Some 0\<rparr>"

definition priority_plain :: ticket_priority where
  "priority_plain = \<lparr>tp_ticket_id = ''T3'', priority_score = 2.5, urgency_level = ''LOW'',
     business_impact = 0.3, affected_users = 1, security_risk = 0\<rparr>"

definition agent_ann :: agent where
  "agent_ann = \<lparr>agent_id = Some ''A1'', name = Some ''Ann'',
     skills = Some [''Networking'' \<mapsto> 9], experience_level = Some 10,
     availability_status = Some ''Available'', current_load = Some 0,
     assigned_tickets = [], current_priority_load = 0\<rparr>"

definition agent_busy :: agent where
  "agent_busy = \<lparr>agent_id = Some ''A2'', name = Some ''Bob'',
     skills = Some Map.empty, experience_level = Some 10,
     availability_status = Some ''Busy'', current_load = Some 10,
     assigned_tickets = [], current_priority_load = 0\<rparr>"

section \<open>Properties\<close>

subsection \<open>Errors and lookups\<close>

lemma ebind_Inr [simp]: "ebind (Inr x) f = f x"
  by (simp add: ebind_def)

lemma ebind_Inl [simp]: "ebind (Inl e) f = Inl e"
  by (simp add: ebind_def)

lemma getitem_Some [simp]: "getitem k (Some v) = Inr v"
  by (simp add: getitem_def)

lemma getitem_None [simp]: "getitem k None = Inl (KeyError k)"
  by (simp add: getitem_def)

lemma ebind_eq_Inr: "ebind m f = Inr y \<longleftrightarrow> (\<exists>x. m = Inr x \<and> f x = Inr y)"
  by (cases m) simp_all

lemma getitem_eq_Inr: "getitem k v = Inr x \<longleftrightarrow> v = Some x"
  by (cases v) simp_all

lemma py_div_nonzero: "b \<noteq> 0 \<Longrightarrow> py_div a b = Inr (a / b)"
  by (simp add: py_div_def)

subsection \<open>Ticket priority\<close>

lemma urgency_of_tiers:
  "(urgency_of x = ''CRITICAL'') = (20 \<le> x)"
  "(urgency_of x = ''HIGH'') = (15 \<le> x \<and> x < 20)"
  "(urgency_of x = ''MEDIUM'') = (10 \<le> x \<and> x < 15)"
  "(urgency_of x = ''LOW'') = (x < 10)"
  by (auto simp: urgency_of_def)

text \<open>
  Claim C3. For a ticket that has its four fields, \<^verbatim>\<open>calculate_ticket_priority\<close>
  returns a priority whose score is
  \<open>10 * critical_count + 5 * high_count + 8 * business_impact + affected_users / 10
     + 9 * security_risk + 3 * time_urgency\<close>,
  where the business impact and the affected users follow the first-match rules on the
  lower-cased title and description, the security risk is the number of the eight
  security keywords found, divided by eight and capped at one, and the time urgency is
  \<open>min (age_hours / 24) 1\<close>, which is negative for a creation time in the future. The
  urgency level is CRITICAL from 20 on, HIGH from 15 on, MEDIUM from 10 on and LOW below,
  each lower bound included.
\<close>

theorem priority_formula:
  assumes "title t = Some ti" and "description t = Some d"
    and "creation_timestamp t = Some created" and "ticket_id t = Some tid"
  defines "body \<equiv> lower ti @ '' '' @ lower d"
  shows "\<exists>p. calculate_ticket_priority cfg now t = Inr p
     \<and> tp_ticket_id p = tid
     \<and> priority_score p =
         10 * real (count_in (critical_keywords cfg) body)
         + 5 * real (count_in (high_priority_keywords cfg) body)
         + 8 * business_impact p + real_of_int (affected_users p) / 10
         + 9 * security_risk p + 3 * min ((now - created) / 3600 / 24) 1
     \<and> business_impact p =
         (if str_in ''production'' body \<or> str_in ''business-critical'' body then 1
          else if str_in ''public'' body \<or> str_in ''customer'' body then 0.8
          else if str_in ''internal'' body \<or> str_in ''employee'' body then 0.5 else 0.3)
     \<and> affected_users p =
         (if str_in ''all'' body \<or> str_in ''everyone'' body \<or> str_in ''company'' body then 100
          else if str_in ''department'' body \<or> str_in ''team'' body \<or> str_in ''multiple'' body
          then 20
          else if str_in ''group'' body then 10 else 1)
     \<and> security_risk p =
         min (real (count_in [''breach'', ''attack'', ''phishing'', ''malware'', ''virus'',
                ''unauthorized'', ''suspicious'', ''security''] body) / 8) 1
     \<and> (now < created \<longrightarrow> min ((now - created) / 3600 / 24) 1 < 0)
     \<and> (urgency_level p = ''CRITICAL'') = (20 \<le> priority_score p)
     \<and> (urgency_level p = ''HIGH'') = (15 \<le> priority_score p \<and> priority_score p < 20)
     \<and> (urgency_level p = ''MEDIUM'') = (10 \<le> priority_score p \<and> priority_score p < 15)
     \<and> (urgency_level p = ''LOW'') = (priority_score p < 10)"
  using assms(1-4) unfolding body_def
  by (simp add: calculate_ticket_priority_def Let_def urgency_of_tiers business_impact_of_def
        affected_users_of_def security_keywords_def)

theorem priority_formula_witness:
  "\<exists>p. calculate_ticket_priority default_config 0 ticket_outage = Inr p
     \<and> priority_score p = 48 \<and> urgency_level p = ''CRITICAL''
     \<and> business_impact p = 1 \<and> affected_users p = 100 \<and> security_risk p = 0"
proof -
  have c: "count_in (critical_keywords default_config)
             (lower ''Network down'' @ '' '' @ lower ''network down for everyone, production outage'') = 3"
    by code_simp
  have h: "count_in (high_priority_keywords default_config)
             (lower ''Network down'' @ '' '' @ lower ''network down for everyone, production outage'') = 0"
    by code_simp
  have s: "count_in [''breach'', ''attack'', ''phishing'', ''malware'', ''virus'',
                ''unauthorized'', ''suspicious'', ''security'']
             (lower ''Network down'' @ '' '' @ lower ''network down for everyone, production outage'') = 0"
    by code_simp
  have b: "str_in ''production''
             (lower ''Network down'' @ '' '' @ lower ''network down for everyone, production outage'')"
    by code_simp
  have a: "str_in ''everyone''
             (lower ''Network down'' @ '' '' @ lower ''network down for everyone, production outage'')"
    by code_simp
  from priority_formula [of ticket_outage "''Network down''"
      "''network down for everyone, production outage''" 0 "''T1''" default_config 0]
  obtain p where p: "calculate_ticket_priority default_config 0 ticket_outage = Inr p"
    "priority_score p = 10 * real (3::nat) + 5 * real (0::nat) + 8 * business_impact p
        + real_of_int (affected_users p) / 10 + 9 * security_risk p
        + 3 * min ((0 - 0) / 3600 / 24) (1::real)"
    "business_impact p = 1" "affected_users p = 100" "security_risk p = 0"
    "(urgency_level p = ''CRITICAL'') = (20 \<le> priority_score p)"
    unfolding c h s using a b by (auto simp: ticket_outage_def)
  then show ?thesis by auto
qed

subsection \<open>Skill extraction and its cache\<close>






lemma extract_cached:
  "ticket_id t = Some tid \<Longrightarrow> cache tid = Some required \<Longrightarrow>
   extract_required_skills cache t = Inr (required, cache)"
  by (simp add: extract_required_skills_def)

lemma extract_fills_cache:
  assumes "extract_required_skills cache t = Inr (required, cache')"
  shows "\<exists>tid. ticket_id t = Some tid \<and> cache' tid = Some required
           \<and> cache' = cache(tid \<mapsto> required)"
proof -
  from assms obtain tid where tid: "ticket_id t = Some tid"
    by (cases "ticket_id t") (simp_all add: extract_required_skills_def)
  show ?thesis
  proof (cases "cache tid")
    case None
    with assms tid show ?thesis
      by (cases "description t"; cases "title t")
         (auto simp: extract_required_skills_def Let_def)
  next
    case (Some r)
    with assms tid have "required = r" "cache' = cache"
      by (simp_all add: extract_required_skills_def)
    with Some tid show ?thesis by (auto simp: fun_upd_idem)
  qed
qed



text \<open>
  Claim C10. The cache is keyed by the ticket id alone: once
  \<^verbatim>\<open>extract_required_skills\<close> has returned for a record, a call on any record with the
  same \<^verbatim>\<open>ticket_id\<close> returns the mapping of the first record and does not change the
  cache, whatever the title and description of the second record are, even absent.
\<close>

theorem cache_keyed_by_ticket_id:
  assumes "extract_required_skills cache t1 = Inr (required, cache')"
    and "ticket_id t2 = ticket_id t1"
  shows "extract_required_skills cache' t2 = Inr (required, cache')"
  using extract_fills_cache [OF assms(1)] assms(2) by (auto simp: extract_cached)

theorem cache_keyed_by_ticket_id_witness:
  "\<exists>cache'. extract_required_skills Map.empty ticket_outage
               = Inr ([(''Networking'', 1 / 6)], cache')
     \<and> extract_required_skills cache'
          (ticket_outage\<lparr>title := Some ''Printer'', description := Some ''printer out of paper''\<rparr>)
          = Inr ([(''Networking'', 1 / 6)], cache')
     \<and> extract_required_skills cache' (ticket_outage\<lparr>title := None, description := None\<rparr>)
          = Inr ([(''Networking'', 1 / 6)], cache')"
proof -
  have scan: "scan_skills skill_keywords
      (lower ''Network down'' @ '' '' @ lower ''network down for everyone, production outage'')
      = [(''Networking'', 1 / 6)]"
    by code_simp
  have run: "extract_required_skills Map.empty ticket_outage
               = Inr ([(''Networking'', 1 / 6)], [''T1'' \<mapsto> [(''Networking'', 1 / 6)]])"
    using scan by (simp add: extract_required_skills_def ticket_outage_def Let_def)
  show ?thesis
    using cache_keyed_by_ticket_id [OF run,
        of "ticket_outage\<lparr>title := Some ''Printer'', description := Some ''printer out of paper''\<rparr>"]
      cache_keyed_by_ticket_id [OF run, of "ticket_outage\<lparr>title := None, description := None\<rparr>"]
      run
    by simp
qed

subsection \<open>Agent score\<close>

lemma extract_plain:
  "extract_required_skills Map.empty ticket_plain = Inr ([], [''T3'' \<mapsto> []])"
proof -
  have "scan_skills skill_keywords (lower ''Hello'' @ '' '' @ lower ''hello'') = []"
    by code_simp
  then show ?thesis
    by (simp add: extract_required_skills_def ticket_plain_def Let_def)
qed

subsection \<open>Rounding to a double\<close>

lemma round_half_even_err: "\<bar>real_of_int (round_half_even y) - y\<bar> \<le> 1 / 2"
  unfolding round_half_even_def Let_def by (auto simp: abs_if) linarith+

lemma ilog2_lower:
  assumes "0 < x"
  shows "2 powi (ilog2 x) \<le> x"
proof (cases "1 \<le> x")
  case True
  then have p: "0 < \<lfloor>x\<rfloor>" by simp
  from bitlen_bounds [OF p] have "2 ^ nat (bitlen \<lfloor>x\<rfloor> - 1) \<le> \<lfloor>x\<rfloor>" by simp
  then have "real_of_int (2 ^ nat (bitlen \<lfloor>x\<rfloor> - 1)) \<le> real_of_int \<lfloor>x\<rfloor>"
    by (simp only: of_int_le_iff)
  also have "\<dots> \<le> x" by simp
  finally have "(2::real) ^ nat (bitlen \<lfloor>x\<rfloor> - 1) \<le> x" by simp
  moreover have "0 \<le> bitlen \<lfloor>x\<rfloor> - 1" using p by (simp add: bitlen_alt_def)
  ultimately show ?thesis using True by (simp add: ilog2_def power_int_def)
next
  case False
  let ?n = "\<lceil>1 / x\<rceil>"
  have "1 < 1 / x" using False assms by simp
  then have n: "0 < ?n - 1" by simp
  from bitlen_bounds [OF n] have "?n - 1 < 2 ^ nat (bitlen (?n - 1))" by simp
  then have "?n \<le> 2 ^ nat (bitlen (?n - 1))" by simp
  then have "real_of_int ?n \<le> real_of_int (2 ^ nat (bitlen (?n - 1)))"
    by (simp only: of_int_le_iff)
  moreover have "1 / x \<le> real_of_int ?n" by (rule le_of_int_ceiling)
  ultimately have "1 / x \<le> real_of_int (2 ^ nat (bitlen (?n - 1)))"
    by (rule order_trans [rotated])
  then have "1 / x \<le> 2 ^ nat (bitlen (?n - 1))" by simp
  then have "1 / 2 ^ nat (bitlen (?n - 1)) \<le> x"
    using assms by (simp add: field_simps)
  moreover have "(2::real) powi (- bitlen (?n - 1)) = 1 / 2 ^ nat (bitlen (?n - 1))"
    using bitlen_nonneg [of "?n - 1"]
    by (simp add: power_int_minus power_int_def inverse_eq_divide power_one_over)
  ultimately show ?thesis using False by (simp add: ilog2_def)
qed

text \<open>
  The error of one rounding: half a unit in the last place, that is a relative \<open>2 ^ - 53\<close>,
  or half the least positive double where the result is subnormal.
\<close>

lemma round_double_err: "\<bar>round_double x - x\<bar> \<le> \<bar>x\<bar> / 2 ^ 53 + 1 / 2 ^ 1075"
proof (cases "x = 0")
  case True
  then show ?thesis by (simp add: round_double_def)
next
  case False
  define e where "e = max (ilog2 \<bar>x\<bar> - 52) (- 1074)"
  have pos: "(0::real) < 2 powi e" by simp
  have rd: "round_double x = real_of_int (round_half_even (x / 2 powi e)) * 2 powi e"
    using False by (simp add: round_double_def e_def Let_def)
  have "\<bar>round_double x - x\<bar>
          = \<bar>real_of_int (round_half_even (x / 2 powi e)) - x / 2 powi e\<bar> * 2 powi e"
    unfolding rd using pos by (simp add: abs_mult [symmetric] field_simps)
  also have "\<dots> \<le> 1 / 2 * 2 powi e"
    using round_half_even_err [of "x / 2 powi e"] pos by (intro mult_right_mono) simp_all
  finally have b: "\<bar>round_double x - x\<bar> \<le> 2 powi e / 2" by simp
  show ?thesis
  proof (cases "ilog2 \<bar>x\<bar> - 52 \<le> - 1074")
    case True
    then have "e = - 1074" by (simp add: e_def)
    then have "(2::real) powi e / 2 = 1 / 2 ^ 1075" by (simp add: power_int_def field_simps)
    moreover have "0 \<le> \<bar>x\<bar> / 2 ^ 53" by simp
    ultimately show ?thesis using b by linarith
  next
    case False
    then have "e = ilog2 \<bar>x\<bar> - 52" by (simp add: e_def)
    then have "(2::real) powi e = 2 powi (ilog2 \<bar>x\<bar>) / 2 ^ 52"
      by (simp add: power_int_diff)
    moreover have "2 powi (ilog2 \<bar>x\<bar>) \<le> \<bar>x\<bar>"
      using \<open>x \<noteq> 0\<close> by (intro ilog2_lower) simp
    ultimately have "(2::real) powi e / 2 \<le> \<bar>x\<bar> / 2 ^ 53" by (simp add: field_simps)
    then show ?thesis using b by simp
  qed
qed

lemma double_0_1_eq: "double_0_1 = 3602879701896397 / 2 ^ 55"
  by code_simp

lemma double_0_01_eq: "double_0_01 = 5764607523034235 / 2 ^ 59"
  by code_simp

lemma double_0_001_eq: "double_0_001 = 1152921504606847 / 2 ^ 60"
  by code_simp

lemma fmul_0_1_tolerance:
  "\<bar>fmul b double_0_1 - b / 10\<bar> \<le> \<bar>b / 10\<bar> / 2 ^ 52 + 1 / 2 ^ 1075"
proof -
  define c1 :: real where "c1 = 3602879701896397 / 2 ^ 55"
  have k: "0 \<le> c1 - 1 / 10" by (simp add: c1_def)
  have "fmul b double_0_1 - b / 10 = (round_double (b * c1) - b * c1) + b * (c1 - 1 / 10)"
    by (simp add: fmul_def double_0_1_eq c1_def algebra_simps)
  then have "\<bar>fmul b double_0_1 - b / 10\<bar>
               \<le> \<bar>round_double (b * c1) - b * c1\<bar> + \<bar>b * (c1 - 1 / 10)\<bar>"
    by linarith
  also have "\<bar>b * (c1 - 1 / 10)\<bar> = \<bar>b\<bar> * (c1 - 1 / 10)"
    by (simp only: abs_mult abs_of_nonneg [OF k])
  finally show ?thesis
    using round_double_err [of "b * c1"] unfolding c1_def
    by (simp add: abs_mult algebra_simps)
qed

lemma fmul_0_01_tolerance:
  "\<bar>fmul b double_0_01 - b / 100\<bar> \<le> \<bar>b / 100\<bar> / 2 ^ 52 + 1 / 2 ^ 1075"
proof -
  define c2 :: real where "c2 = 5764607523034235 / 2 ^ 59"
  have k: "0 \<le> c2 - 1 / 100" by (simp add: c2_def)
  have "fmul b double_0_01 - b / 100 = (round_double (b * c2) - b * c2) + b * (c2 - 1 / 100)"
    by (simp add: fmul_def double_0_01_eq c2_def algebra_simps)
  then have "\<bar>fmul b double_0_01 - b / 100\<bar>
               \<le> \<bar>round_double (b * c2) - b * c2\<bar> + \<bar>b * (c2 - 1 / 100)\<bar>"
    by linarith
  also have "\<bar>b * (c2 - 1 / 100)\<bar> = \<bar>b\<bar> * (c2 - 1 / 100)"
    by (simp only: abs_mult abs_of_nonneg [OF k])
  finally show ?thesis
    using round_double_err [of "b * c2"] unfolding c2_def
    by (simp add: abs_mult algebra_simps)
qed

lemma penalty_product_tolerance:
  "\<bar>fmul (fmul b double_0_1) double_0_01 - b / 1000\<bar>
     \<le> \<bar>b / 1000\<bar> / 2 ^ 51 + 1 / 2 ^ 1074"
proof -
  define c1 :: real where "c1 = 3602879701896397 / 2 ^ 55"
  define c2 :: real where "c2 = 5764607523034235 / 2 ^ 59"
  define eta :: real where "eta = 1 / 2 ^ 1075"
  define y1 where "y1 = round_double (b * c1)"
  define y2 where "y2 = round_double (y1 * c2)"
  define d1 where "d1 = \<bar>y1 - b * c1\<bar>"
  define d2 where "d2 = \<bar>y2 - y1 * c2\<bar>"
  have eta: "0 \<le> eta" "1 / 2 ^ 1074 = 2 * eta" by (simp_all add: eta_def)
  have c2: "0 \<le> c2" by (simp add: c2_def)
  have k: "0 \<le> c1 * c2 - 1 / 1000" by (simp add: c1_def c2_def)
  have y2: "fmul (fmul b double_0_1) double_0_01 = y2"
    by (simp add: fmul_def y2_def y1_def c1_def c2_def double_0_1_eq double_0_01_eq)
  have e1: "d1 \<le> \<bar>b\<bar> * c1 / 2 ^ 53 + eta"
    using round_double_err [of "b * c1"]
    by (simp add: d1_def y1_def eta_def abs_mult c1_def)
  have e2: "d2 \<le> \<bar>y1\<bar> * c2 / 2 ^ 53 + eta"
    using round_double_err [of "y1 * c2"]
    by (simp add: d2_def y2_def eta_def abs_mult c2_def)
  have a1: "\<bar>y1\<bar> \<le> \<bar>b\<bar> * c1 + d1"
    unfolding d1_def by (simp add: abs_mult c1_def)
  have "y2 - b / 1000 = (y2 - y1 * c2) + c2 * (y1 - b * c1) + b * (c1 * c2 - 1 / 1000)"
    by (simp add: algebra_simps)
  then have "\<bar>y2 - b / 1000\<bar>
               \<le> d2 + \<bar>c2 * (y1 - b * c1)\<bar> + \<bar>b * (c1 * c2 - 1 / 1000)\<bar>"
    unfolding d2_def by linarith
  also have "\<bar>c2 * (y1 - b * c1)\<bar> = c2 * d1"
    by (simp only: abs_mult abs_of_nonneg [OF c2] d1_def)
  also have "\<bar>b * (c1 * c2 - 1 / 1000)\<bar> = \<bar>b\<bar> * (c1 * c2 - 1 / 1000)"
    by (simp only: abs_mult abs_of_nonneg [OF k])
  finally have t: "\<bar>y2 - b / 1000\<bar> \<le> d2 + c2 * d1 + \<bar>b\<bar> * (c1 * c2 - 1 / 1000)" .
  have "c2 * d1 \<le> c2 * (\<bar>b\<bar> * c1 / 2 ^ 53 + eta)"
    using e1 by (intro mult_left_mono) (simp_all add: c2_def)
  moreover have "\<bar>y1\<bar> * c2 / 2 ^ 53 \<le> (\<bar>b\<bar> * c1 + d1) * c2 / 2 ^ 53"
    using a1 by (simp add: c2_def)
  ultimately have "\<bar>y2 - b / 1000\<bar> \<le> \<bar>b\<bar> / 1000 / 2 ^ 51 + 2 * eta"
    using t e1 e2 eta(1) unfolding c1_def c2_def by (simp add: algebra_simps)
  then show ?thesis unfolding y2 eta(2) by simp
qed

subsection \<open>The penalties\<close>

lemma weighted_sum_busy:
  "weighted_sum default_config Map.empty [] agent_busy priority_plain = Inr 5.5"
  by (simp add: weighted_sum_def skill_match_score_of_def agent_busy_def default_config_def
        Let_def py_div_def priority_capability_of_def priority_plain_def
        performance_score_of_def)

lemma penalties_busy:
  "fmul (fmul 5.5 double_0_1) double_0_01 = 6341068275337659 / 2 ^ 60"
  by code_simp

lemma exact_product_busy: "fmul double_0_001 5.5 = 6341068275337658 / 2 ^ 60"
  by code_simp

text \<open>
  Claim C6, as stated, fails. The agent \<open>agent_busy\<close> is not available and at its maximum
  load, and its weighted sum is 5.5; the score returned is the double
  \<open>6341068275337659 / 2 ^ 60\<close> (printed \<^verbatim>\<open>0.0055000000000000005\<close>), which is neither the number
  \<open>0.001 * 5.5\<close> nor the double product \<^verbatim>\<open>0.001 * 5.5\<close>, one unit in the last place below.
\<close>

theorem penalties_stack_not_exact:
  "weighted_sum default_config Map.empty [] agent_busy priority_plain = Inr 5.5
   \<and> availability_status agent_busy = Some ''Busy''
   \<and> current_load agent_busy = Some 10 \<and> max_load_per_agent default_config = 10
   \<and> calculate_agent_score default_config Map.empty Map.empty agent_busy ticket_plain
       priority_plain = Inr (6341068275337659 / 2 ^ 60, [''T3'' \<mapsto> []])
   \<and> calculate_agent_score default_config Map.empty Map.empty agent_busy ticket_plain
       priority_plain \<noteq> Inr (0.001 * 5.5, [''T3'' \<mapsto> []])
   \<and> calculate_agent_score default_config Map.empty Map.empty agent_busy ticket_plain
       priority_plain \<noteq> Inr (fmul double_0_001 5.5, [''T3'' \<mapsto> []])"
proof -
  have "calculate_agent_score default_config Map.empty Map.empty agent_busy ticket_plain
       priority_plain = Inr (fmul (fmul 5.5 double_0_1) double_0_01, [''T3'' \<mapsto> []])"
    by (simp add: calculate_agent_score_def extract_plain weighted_sum_busy
          apply_penalties_def)
       (simp add: agent_busy_def default_config_def)
  then show ?thesis
    unfolding penalties_busy exact_product_busy
    by (simp add: weighted_sum_busy) (simp add: agent_busy_def default_config_def)
qed

text \<open>
  Claim C6, amended. After the weighted sum, \<^verbatim>\<open>calculate_agent_score\<close> multiplies the
  score by the double 0.1 when the availability status is not "Available" and then by
  the double 0.01 when \<open>current_load \<ge> max_load\<close>, each product rounded to the nearest
  double. Each penalty is the exact tenth (hundredth) within a relative \<open>2 ^ - 52\<close>, and
  for an agent in both conditions the score returned is 0.001 times the weighted sum
  within a relative \<open>2 ^ - 51\<close> (and \<open>2 ^ - 1074\<close>, the least positive double, where the
  products underflow), not always exactly.
\<close>

theorem penalties_stack:
  assumes "availability_status a = Some status" and "current_load a = Some load"
    and "extract_required_skills cache t = Inr (required, cache')"
    and "weighted_sum cfg hist required a tp = Inr base"
  shows "\<exists>score. calculate_agent_score cfg hist cache a t tp = Inr (score, cache')
       \<and> score = (let score1 = (if status \<noteq> ''Available'' then fmul base double_0_1 else base)
                  in if load \<ge> max_load_per_agent cfg then fmul score1 double_0_01
                     else score1)
       \<and> (status \<noteq> ''Available'' \<and> load < max_load_per_agent cfg \<longrightarrow>
            \<bar>score - 0.1 * base\<bar> \<le> \<bar>0.1 * base\<bar> / 2 ^ 52 + 1 / 2 ^ 1075)
       \<and> (status = ''Available'' \<and> load \<ge> max_load_per_agent cfg \<longrightarrow>
            \<bar>score - 0.01 * base\<bar> \<le> \<bar>0.01 * base\<bar> / 2 ^ 52 + 1 / 2 ^ 1075)
       \<and> (status \<noteq> ''Available'' \<and> load \<ge> max_load_per_agent cfg \<longrightarrow>
            \<bar>score - 0.001 * base\<bar> \<le> \<bar>0.001 * base\<bar> / 2 ^ 51 + 1 / 2 ^ 1074)
       \<and> (status = ''Available'' \<and> load < max_load_per_agent cfg \<longrightarrow> score = base)"
proof -
  let ?score = "let score1 = (if status \<noteq> ''Available'' then fmul base double_0_1 else base)
                in if load \<ge> max_load_per_agent cfg then fmul score1 double_0_01 else score1"
  have "calculate_agent_score cfg hist cache a t tp = Inr (?score, cache')"
    using assms by (simp add: calculate_agent_score_def apply_penalties_def Let_def)
  moreover have "status \<noteq> ''Available'' \<and> load < max_load_per_agent cfg \<longrightarrow>
            \<bar>?score - 0.1 * base\<bar> \<le> \<bar>0.1 * base\<bar> / 2 ^ 52 + 1 / 2 ^ 1075"
    using fmul_0_1_tolerance [of base] by (simp add: Let_def)
  moreover have "status = ''Available'' \<and> load \<ge> max_load_per_agent cfg \<longrightarrow>
            \<bar>?score - 0.01 * base\<bar> \<le> \<bar>0.01 * base\<bar> / 2 ^ 52 + 1 / 2 ^ 1075"
    using fmul_0_01_tolerance [of base] by (simp add: Let_def)
  moreover have "status \<noteq> ''Available'' \<and> load \<ge> max_load_per_agent cfg \<longrightarrow>
            \<bar>?score - 0.001 * base\<bar> \<le> \<bar>0.001 * base\<bar> / 2 ^ 51 + 1 / 2 ^ 1074"
    using penalty_product_tolerance [of base] by (simp add: Let_def)
  moreover have "status = ''Available'' \<and> load < max_load_per_agent cfg \<longrightarrow> ?score = base"
    by (simp add: Let_def)
  ultimately show ?thesis by blast
qed

theorem penalties_stack_witness:
  "\<exists>score. calculate_agent_score default_config Map.empty Map.empty agent_busy ticket_plain
       priority_plain = Inr (score, [''T3'' \<mapsto> []])
     \<and> score = 6341068275337659 / 2 ^ 60
     \<and> \<bar>score - 0.001 * 5.5\<bar> \<le> \<bar>0.001 * 5.5\<bar> / 2 ^ 51 + 1 / 2 ^ 1074"
proof -
  have "availability_status agent_busy = Some ''Busy''" "current_load agent_busy = Some 10"
    by (simp_all add: agent_busy_def)
  from penalties_stack [OF this extract_plain weighted_sum_busy] penalties_busy
  show ?thesis by (simp add: default_config_def)
qed

text \<open>
  Claim C7. When the mapping of required skills is empty, the skill match score is the
  neutral 5; the division by the number of required skills happens only when that number
  is positive, so \<^verbatim>\<open>skill_match_score\<close> never fails by a division by zero. For an
  available agent below its maximum load the score of \<^verbatim>\<open>calculate_agent_score\<close> is then
  the weighted sum with 5 as the skill match score.
\<close>

theorem no_required_skills_neutral:
  "skill_match_score_of a [] = Inr 5
   \<and> skill_match_score_of a required \<noteq> Inl ZeroDivisionError
   \<and> (extract_required_skills cache t = Inr ([], cache') \<and>
        experience_level a = Some experience \<and> current_load a = Some load \<and>
        agent_id a = Some aid \<and> hist aid = None \<and> max_load_per_agent cfg \<noteq> 0 \<and>
        availability_status a = Some ''Available'' \<and> load < max_load_per_agent cfg \<longrightarrow>
        calculate_agent_score cfg hist cache a t tp =
          Inr (5 * skill_match_weight cfg
               + min (real_of_int experience / 10) 1 * 10 * experience_weight cfg
               + (1 - real_of_int load / real_of_int (max_load_per_agent cfg)) * 10
                 * workload_weight cfg
               + priority_capability_of (urgency_level tp) experience * priority_weight cfg
               + 5 * 0.1, cache'))"
proof (intro conjI impI)
  show "skill_match_score_of a [] = Inr 5"
    by (simp add: skill_match_score_of_def)
  show "skill_match_score_of a required \<noteq> Inl ZeroDivisionError"
    by (cases "skills a"; cases required) (simp_all add: skill_match_score_of_def py_div_def)
  assume "extract_required_skills cache t = Inr ([], cache') \<and>
        experience_level a = Some experience \<and> current_load a = Some load \<and>
        agent_id a = Some aid \<and> hist aid = None \<and> max_load_per_agent cfg \<noteq> 0 \<and>
        availability_status a = Some ''Available'' \<and> load < max_load_per_agent cfg"
  then show "calculate_agent_score cfg hist cache a t tp =
          Inr (5 * skill_match_weight cfg
               + min (real_of_int experience / 10) 1 * 10 * experience_weight cfg
               + (1 - real_of_int load / real_of_int (max_load_per_agent cfg)) * 10
                 * workload_weight cfg
               + priority_capability_of (urgency_level tp) experience * priority_weight cfg
               + 5 * 0.1, cache')"
    by (simp add: calculate_agent_score_def weighted_sum_def apply_penalties_def Let_def
          skill_match_score_of_def py_div_nonzero performance_score_of_def)
qed

theorem no_required_skills_neutral_witness:
  "extract_required_skills Map.empty ticket_plain = Inr ([], [''T3'' \<mapsto> []])
   \<and> skill_match_score_of agent_ann [] = Inr 5
   \<and> calculate_agent_score default_config Map.empty Map.empty agent_ann ticket_plain
       priority_plain = Inr (7.5, [''T3'' \<mapsto> []])"
proof -
  have h: "extract_required_skills Map.empty ticket_plain = Inr ([], [''T3'' \<mapsto> []]) \<and>
        experience_level agent_ann = Some 10 \<and> current_load agent_ann = Some 0 \<and>
        agent_id agent_ann = Some ''A1'' \<and> Map.empty ''A1'' = (None :: history option) \<and>
        max_load_per_agent default_config \<noteq> 0 \<and>
        availability_status agent_ann = Some ''Available'' \<and>
        0 < max_load_per_agent default_config"
    by (simp add: extract_plain agent_ann_def default_config_def)
  from no_required_skills_neutral [of agent_ann "[]" Map.empty ticket_plain
      "[''T3'' \<mapsto> []]" 10 0 "''A1''" Map.empty default_config priority_plain] h
  show ?thesis
    by (simp add: default_config_def priority_capability_of_def priority_plain_def)
qed

end
